theory Spec2Isabelle
  imports Complex_Main "HOL-Library.Multiset"
begin

section \<open>Floating-point values of the price table\<close>

text \<open>
  The columns of the pandas table hold float64 values. The model keeps the special
  values of IEEE arithmetic (not-a-number and the two infinities), because the
  program's behaviour on short series and on zero prices is decided by them, and
  idealises the finite values as exact rationals: rounding and signed zeros are not
  modelled.
\<close>

datatype fval = NaN | NegInf | Fin rat | PosInf

text \<open>Comparison \<open>a < b\<close>: every comparison with not-a-number is
    false.\<close>

fun flt :: "fval \<Rightarrow> fval \<Rightarrow> bool" where
  "flt NaN b = False"
| "flt NegInf NaN = False"
| "flt NegInf NegInf = False"
| "flt NegInf (Fin b) = True"
| "flt NegInf PosInf = True"
| "flt (Fin a) NaN = False"
| "flt (Fin a) NegInf = False"
| "flt (Fin a) (Fin b) = (a < b)"
| "flt (Fin a) PosInf = True"
| "flt PosInf b = False"

definition fgt :: "fval \<Rightarrow> fval \<Rightarrow> bool" where
  "fgt a b = flt b a"

text \<open>Equality \<open>a == b\<close>: not-a-number is not equal to itself.\<close>

definition feq :: "fval \<Rightarrow> fval \<Rightarrow> bool" where
  "feq a b = (a \<noteq> NaN \<and> b \<noteq> NaN \<and> a = b)"

text \<open>
  Division: a finite value over zero is an infinity or not-a-number, never an error.
  The model has one zero, which is the float \<open>+0.0\<close>, the zero a price of 0 is read
  as: over it a positive value gives plus infinity. Over the float \<open>-0.0\<close>, which
  the model does not have, the two infinities change places; the property of a zero
  previous close below is therefore stated without the sign of the infinity.
\<close>

fun fdiv :: "fval \<Rightarrow> fval \<Rightarrow> fval" where
  "fdiv NaN b = NaN"
| "fdiv (Fin a) NaN = NaN"
| "fdiv (Fin a) (Fin b) =
     (if b = 0 then (if 0 < a then PosInf else if a < 0 then NegInf else NaN)
      else Fin (a / b))"
| "fdiv (Fin a) NegInf = Fin 0"
| "fdiv (Fin a) PosInf = Fin 0"
| "fdiv PosInf (Fin b) = (if b < 0 then NegInf else PosInf)"
| "fdiv PosInf b = NaN"
| "fdiv NegInf (Fin b) = (if b < 0 then PosInf else NegInf)"
| "fdiv NegInf b = NaN"

fun fsub :: "fval \<Rightarrow> fval \<Rightarrow> fval" where
  "fsub NaN b = NaN"
| "fsub (Fin a) NaN = NaN"
| "fsub (Fin a) (Fin b) = Fin (a - b)"
| "fsub (Fin a) NegInf = PosInf"
| "fsub (Fin a) PosInf = NegInf"
| "fsub PosInf NaN = NaN"
| "fsub PosInf PosInf = NaN"
| "fsub PosInf b = PosInf"
| "fsub NegInf NaN = NaN"
| "fsub NegInf NegInf = NaN"
| "fsub NegInf b = NegInf"

fun fmul :: "fval \<Rightarrow> fval \<Rightarrow> fval" where
  "fmul NaN b = NaN"
| "fmul (Fin a) NaN = NaN"
| "fmul (Fin a) (Fin b) = Fin (a * b)"
| "fmul (Fin a) NegInf = (if 0 < a then NegInf else if a < 0 then PosInf else NaN)"
| "fmul (Fin a) PosInf = (if 0 < a then PosInf else if a < 0 then NegInf else NaN)"
| "fmul PosInf NaN = NaN"
| "fmul PosInf (Fin b) = (if 0 < b then PosInf else if b < 0 then NegInf else NaN)"
| "fmul PosInf NegInf = NegInf"
| "fmul PosInf PosInf = PosInf"
| "fmul NegInf NaN = NaN"
| "fmul NegInf (Fin b) = (if 0 < b then NegInf else if b < 0 then PosInf else NaN)"
| "fmul NegInf NegInf = PosInf"
| "fmul NegInf PosInf = NegInf"


section \<open>The price table of one ticker\<close>

text \<open>
  One table per ticker: the column \<open>Adj Close\<close> as fetched (oldest bar first), the
  two columns that \<open>analyze_stock\<close> adds (absent until it has run),
      and the remaining
  fetched columns, which the program never reads. The fetched prices are finite
  numbers: a table with missing prices is outside this model.
\<close>

record frame =
  Adj_Close :: "rat list"
  Daily_Return :: "fval list option"
  SMA_5 :: "fval list option"
  other_cols :: "(string \<times> fval list) list"

text \<open>\<open>Series.shift(1)\<close>: every value moves one row down,
    the first row is empty.\<close>

definition shift1 :: "fval list \<Rightarrow> fval list" where
  "shift1 xs = (if xs = [] then [] else NaN # butlast xs)"

text \<open>\<open>Series.pct_change()\<close> computes \<open>data / data.shift(1) - 1\<close>
    row by row.\<close>

definition pct_change :: "rat list \<Rightarrow> fval list" where
  "pct_change cs =
     (let d = map Fin cs
      in map (\<lambda>(a, b). fsub (fdiv a b) (Fin 1)) (zip d (shift1 d)))"

definition scale :: "fval list \<Rightarrow> fval \<Rightarrow> fval list" where
  "scale xs k = map (\<lambda>x. fmul x k) xs"

text \<open>
  \<open>Series.rolling(window=w).mean()\<close>: the mean of the last \<open>w\<close> rows up
      to and
  including the current one; a row that has fewer than \<open>w\<close> rows behind it is empty.
\<close>

definition rolling_mean :: "nat \<Rightarrow> rat list \<Rightarrow> fval list" where
  "rolling_mean w cs =
     map (\<lambda>i. if Suc i < w then NaN
              else Fin (sum_list (take w (drop (Suc i - w) cs)) / of_nat w))
         [0..<length cs]"

text \<open>\<open>Series.tail(n)\<close>: the last \<open>n\<close> rows,
    or all of them when there are fewer.\<close>

definition tail :: "nat \<Rightarrow> 'a list \<Rightarrow> 'a list" where
  "tail n xs = drop (length xs - n) xs"


section \<open>Analysing one ticker\<close>

datatype error = IndexError | KeyError

record analysis =
  Ticker :: string
  Last_Close :: fval
  Last_Return :: fval
  SMA_5_Day :: fval
  Trend_Score :: int
  Trade_Signal :: bool
  Reason :: string

text \<open>
  \<open>analyze_stock\<close> writes its two columns into the table it is given, so the model
  returns the table as the function leaves it, next to the result. The columns are
  written before the last row is read: on an empty table \<open>df.iloc[-1]\<close> raises after
  the table has been changed.
\<close>

definition analyze_stock :: "string \<Rightarrow> frame \<Rightarrow> (error + analysis)
    \<times> frame" where
  "analyze_stock ticker df =
     (let ret = scale (pct_change (Adj_Close df)) (Fin 100);
          df1 = df\<lparr>Daily_Return := Some ret\<rparr>;
          sma = rolling_mean 5 (Adj_Close df1);
          df2 = df1\<lparr>SMA_5 := Some sma\<rparr>
      in if Adj_Close df2 = [] then (Inl IndexError, df2)
         else
           let last_return = last ret;
               last_close = Fin (last (Adj_Close df2));
               sma5 = last sma;
               trend_score = int (length (filter (\<lambda>r. fgt r (Fin 0)) (tail 5 ret)));
               (trade_signal, reason) =
                 (if fgt last_close sma5 \<and> fgt last_return (Fin 0)
                  then (True, ''Price above 5-day SMA with positive momentum'')
                  else (False, ''No strong bullish signal''))
           in (Inr \<lparr>Ticker = ticker, Last_Close = last_close,
                     Last_Return = last_return, SMA_5_Day = sma5,
                     Trend_Score = trend_score, Trade_Signal = trade_signal,
                     Reason = reason\<rparr>, df2))"

text \<open>
  \<open>plot_stock\<close> draws the price and the column \<open>SMA_5\<close> of the table it
      is given: it
  reads the column that \<open>analyze_stock\<close> has written there. The chart is kept as the
  two series drawn.
\<close>

definition plot_stock :: "string \<Rightarrow> frame \<Rightarrow> error + (string \<times> rat
    list \<times> fval list)" where
  "plot_stock ticker df =
     (case SMA_5 df of
        None \<Rightarrow> Inl KeyError
      | Some sma \<Rightarrow> Inr (ticker, Adj_Close df, sma))"


section \<open>Choosing the best candidate\<close>

text \<open>
  The sort key is the Python tuple \<open>(Trend Score, Last Return %)\<close>. Tuples compare
  by their first components that are not \<open>==\<close>, and are not less when all are. On
  keys that hold not-a-number this is not an order; the properties of the sorted list
  below are stated for keys without it.
\<close>

definition rank_key :: "analysis \<Rightarrow> int \<times> fval" where
  "rank_key x = (Trend_Score x, Last_Return x)"

fun tuple_lt :: "int \<times> fval \<Rightarrow> int \<times> fval \<Rightarrow> bool" where
  "tuple_lt (t1, r1) (t2, r2) =
     (if t1 \<noteq> t2 then t1 < t2
      else if \<not> feq r1 r2 then flt r1 r2
      else False)"

text \<open>
  \<open>sorted\<close> is a stable sort that compares keys with \<open><\<close> only. With
  \<open>reverse=True\<close> the list is reversed, sorted, and reversed again, which keeps
  elements with equal keys in their input order. The sort itself is modelled by
  insertion: each element goes behind the elements that are not greater.
\<close>

fun insert_sorted :: "('a \<Rightarrow> 'k) \<Rightarrow> ('k \<Rightarrow> 'k \<Rightarrow>
    bool) \<Rightarrow> 'a \<Rightarrow> 'a list \<Rightarrow> 'a list" where
  "insert_sorted key lt x [] = [x]"
| "insert_sorted key lt x (y # ys) =
     (if lt (key x) (key y) then x # y # ys else y # insert_sorted key lt x ys)"

definition stable_sort :: "('a \<Rightarrow> 'k) \<Rightarrow> ('k \<Rightarrow> 'k
    \<Rightarrow> bool) \<Rightarrow> 'a list \<Rightarrow> 'a list" where
  "stable_sort key lt xs = foldl (\<lambda>acc x. insert_sorted key lt x acc) [] xs"

definition sorted_py :: "('a \<Rightarrow> 'k) \<Rightarrow> ('k \<Rightarrow> 'k \<Rightarrow>
    bool) \<Rightarrow> bool \<Rightarrow> 'a list \<Rightarrow> 'a list" where
  "sorted_py key lt reverse xs =
     (if reverse then rev (stable_sort key lt (rev xs)) else stable_sort key lt xs)"

text \<open>
  \<open>suggest_best_trade\<close> prints its choice and returns nothing; the model returns
      what
  it reports: that there is no candidate, or the record it prints as the best one.
\<close>

datatype outcome = NoCandidate | Best analysis

definition suggest_best_trade :: "analysis list \<Rightarrow> error + outcome" where
  "suggest_best_trade analyses =
     (let candidates = filter Trade_Signal analyses
      in if candidates = [] then Inr NoCandidate
         else case sorted_py rank_key tuple_lt True candidates of
                [] \<Rightarrow> Inl IndexError
              | best # _ \<Rightarrow> Inr (Best best))"


section \<open>The main loop\<close>

text \<open>
  The tables are objects that are changed in place, so the main program is modelled
  over a store of tables. \<open>raw_data\<close> gives the address of the fetched table of each
  ticker that was downloaded; \<open>copy\<close> allocates a new table at
      \<open>next_addr\<close>, the
  first address not in use.
\<close>

record state =
  store :: "nat \<Rightarrow> frame"
  next_addr :: nat
  raw_data :: "string \<rightharpoonup> nat"
  all_analyses :: "analysis list"
  charts :: "(string \<times> rat list \<times> fval list) list"

definition copy :: "nat \<Rightarrow> state \<Rightarrow> nat \<times> state" where
  "copy p s =
     (next_addr s,
      s\<lparr>store := (store s)(next_addr s := store s p),
          next_addr := Suc (next_addr s)\<rparr>)"

text \<open>The call \<open>analyze_stock(ticker,
    df)\<close> on the table at address \<open>df\<close>.\<close>

definition analyze_stock_at :: "string \<Rightarrow> nat \<Rightarrow> state \<Rightarrow>
    (error + analysis) \<times> state" where
  "analyze_stock_at ticker df s =
     (let (r, t) = analyze_stock ticker (store s df)
      in (r, s\<lparr>store := (store s)(df := t)\<rparr>))"

text \<open>One round of the loop over the tickers. An exception ends the program.\<close>

definition main_step :: "string \<Rightarrow> state \<Rightarrow> error + state" where
  "main_step ticker s =
     (case raw_data s ticker of
        None \<Rightarrow> Inr s
      | Some p \<Rightarrow>
          (let (df, s1) = copy p s;
               (r, s2) = analyze_stock_at ticker df s1
           in case r of
                Inl e \<Rightarrow> Inl e
              | Inr analysis \<Rightarrow>
                  (let s3 = s2\<lparr>all_analyses := all_analyses s2 @ [analysis]\<rparr>
                   in case plot_stock ticker (store s3 df) of
                        Inl e \<Rightarrow> Inl e
                      | Inr chart \<Rightarrow> Inr (s3\<lparr>charts := charts s3 @
                          [chart]\<rparr>))))"

fun main_loop :: "string list \<Rightarrow> state \<Rightarrow> error + state" where
  "main_loop [] s = Inr s"
| "main_loop (ticker # tickers) s =
     (case main_step ticker s of
        Inl e \<Rightarrow> Inl e
      | Inr s' \<Rightarrow> main_loop tickers s')"

text \<open>
  The program after the download: the first 20 tickers are analysed, then the best
  candidate is reported. The printed lines and the CSV file, which holds the collected
  analyses, are not modelled.
\<close>

definition main :: "string list \<Rightarrow> state \<Rightarrow> error + (state \<times>
    outcome)" where
  "main tickers s =
     (case main_loop (take 20 tickers) (s\<lparr>all_analyses := []\<rparr>) of
        Inl e \<Rightarrow> Inl e
      | Inr s' \<Rightarrow>
          (case suggest_best_trade (all_analyses s') of
             Inl e \<Rightarrow> Inl e
           | Inr out \<Rightarrow> Inr (s', out)))"


section \<open>Properties of the analysis of one ticker\<close>

subsection \<open>The columns and the result\<close>

lemma length_pct_change: "length (pct_change cs) = length cs"
  by (simp add: pct_change_def shift1_def Let_def)

lemma length_scale: "length (scale xs k) = length xs"
  by (simp add: scale_def)

lemma length_rolling_mean: "length (rolling_mean w cs) = length cs"
  by (simp add: rolling_mean_def)

lemma analyze_stock_frame:
  "snd (analyze_stock ticker df) =
     df\<lparr>Daily_Return := Some (scale (pct_change (Adj_Close df)) (Fin 100)),
        SMA_5 := Some (rolling_mean 5 (Adj_Close df))\<rparr>"
  by (simp add: analyze_stock_def Let_def split: prod.splits)

lemma analyze_stock_result:
  assumes "analyze_stock ticker df = (Inr a, df')"
  shows "Adj_Close df \<noteq> []"
    and "Ticker a = ticker"
    and "Last_Close a = Fin (last (Adj_Close df))"
    and "Last_Return a = last (scale (pct_change (Adj_Close df)) (Fin 100))"
    and "SMA_5_Day a = last (rolling_mean 5 (Adj_Close df))"
    and "Trend_Score a =
           int (length (filter (\<lambda>r. fgt r (Fin 0))
                  (tail 5 (scale (pct_change (Adj_Close df)) (Fin 100)))))"
    and "Trade_Signal a = (fgt (Last_Close a) (SMA_5_Day a) \<and> fgt (Last_Return a) (Fin 0))"
    and "Reason a = (if Trade_Signal a then ''Price above 5-day SMA with positive momentum''
                     else ''No strong bullish signal'')"
  using assms
  by (auto simp add: analyze_stock_def Let_def split: if_splits prod.splits)

lemma analyze_stock_nonempty:
  assumes "Adj_Close df \<noteq> []"
  shows "\<exists>a. fst (analyze_stock ticker df) = Inr a"
  using assms by (simp add: analyze_stock_def Let_def split: prod.splits)

lemma analyze_stock_empty:
  "Adj_Close df = [] \<Longrightarrow> fst (analyze_stock ticker df) = Inl IndexError"
  by (simp add: analyze_stock_def Let_def)

lemma fgt_irrefl: "\<not> fgt x x"
  by (cases x) (simp_all add: fgt_def)

lemma flt_NaN_right: "\<not> flt x NaN"
  by (cases x) simp_all

lemma analyze_stock_signal_return:
  assumes "analyze_stock ticker df = (Inr a, df')" and "Trade_Signal a"
  shows "Last_Return a \<noteq> NaN"
  using analyze_stock_result(7)[OF assms(1)] assms(2) by (auto simp: fgt_def)

lemma card_last_rows:
  "length (filter P (tail n rs)) = card {i. i < length rs \<and> length rs \<le> i + n \<and> P
      (rs ! i)}"
proof -
  let ?k = "length rs - n"
  have "length (filter P (drop ?k rs)) = card {i. i < length (drop ?k rs) \<and> P (drop ?k rs
      ! i)}"
    by (rule length_filter_conv_card)
  also have "\<dots> = card ((\<lambda>i. ?k + i) ` {i. i < length (drop ?k rs) \<and> P (drop
      ?k rs ! i)})"
    by (simp add: card_image)
  also have "(\<lambda>i. ?k + i) ` {i. i < length (drop ?k rs) \<and> P (drop ?k rs ! i)}
             = {i. i < length rs \<and> length rs \<le> i + n \<and> P (rs ! i)}"
  proof (intro set_eqI iffI)
    fix j assume "j \<in> (\<lambda>i. ?k + i) ` {i. i < length (drop ?k rs) \<and> P (drop ?k
        rs ! i)}"
    then show "j \<in> {i. i < length rs \<and> length rs \<le> i + n \<and> P (rs ! i)}"
      by auto
  next
    fix j assume j: "j \<in> {i. i < length rs \<and> length rs \<le> i + n \<and> P (rs ! i)}"
    then have "j = ?k + (j - ?k)" "j - ?k < length (drop ?k rs)" "P (drop ?k rs ! (j - ?k))"
      by auto
    then show "j \<in> (\<lambda>i. ?k + i) ` {i. i < length (drop ?k rs) \<and> P (drop ?k rs
        ! i)}"
      by blast
  qed
  finally show ?thesis by (simp add: tail_def)
qed

lemma length_tail: "length (tail n xs) \<le> n"
  by (simp add: tail_def)

lemma pct_change_0: "cs \<noteq> [] \<Longrightarrow> pct_change cs ! 0 = NaN"
  by (cases cs) (simp_all add: pct_change_def shift1_def)

lemma pct_change_nth:
  assumes "0 < i" "i < length cs"
  shows "pct_change cs ! i = fsub (fdiv (Fin (cs ! i)) (Fin (cs ! (i - 1)))) (Fin 1)"
proof -
  have ne: "cs \<noteq> []" using assms by auto
  have "shift1 (map Fin cs) ! i = butlast (map Fin cs) ! (i - 1)"
    using assms ne by (cases i) (simp_all add: shift1_def)
  also have "\<dots> = Fin (cs ! (i - 1))"
    using assms by (simp add: nth_butlast)
  finally have s: "shift1 (map Fin cs) ! i = Fin (cs ! (i - 1))" .
  have l: "length (shift1 (map Fin cs)) = length cs"
    using ne by (simp add: shift1_def)
  have "pct_change cs ! i
        = fsub (fdiv (map Fin cs ! i) (shift1 (map Fin cs) ! i)) (Fin 1)"
    using assms l by (simp add: pct_change_def Let_def)
  then show ?thesis
    using assms by (simp only: s nth_map)
qed

lemma scale_nth: "i < length xs \<Longrightarrow> scale xs k ! i = fmul (xs ! i) k"
  by (simp add: scale_def)

lemma rolling_mean_nth:
  "i < length cs \<Longrightarrow>
   rolling_mean w cs ! i =
     (if Suc i < w then NaN
      else Fin (sum_list (take w (drop (Suc i - w) cs)) / of_nat w))"
  by (simp add: rolling_mean_def)

lemma window5:
  assumes "k + 4 < length cs"
  shows "take 5 (drop k cs) = [cs ! k, cs ! (k + 1), cs ! (k + 2), cs ! (k + 3), cs ! (k + 4)]"
proof (rule nth_equalityI)
  show "length (take 5 (drop k cs)) = length [cs ! k, cs ! (k + 1), cs ! (k + 2), cs ! (k + 3),
      cs ! (k + 4)]"
    using assms by simp
next
  fix i assume "i < length (take 5 (drop k cs))"
  then have "i < 5" by simp
  then consider "i = 0" | "i = 1" | "i = 2" | "i = 3" | "i = 4" by linarith
  then show "take 5 (drop k cs) ! i = [cs ! k, cs ! (k + 1), cs ! (k + 2), cs ! (k + 3),
      cs ! (k + 4)] ! i"
    using assms by cases simp_all
qed

lemma rolling_mean_5_nth:
  assumes "4 \<le> i" "i < length cs"
  shows "rolling_mean 5 cs ! i =
           Fin ((cs ! (i - 4) + cs ! (i - 3) + cs ! (i - 2) + cs ! (i - 1) + cs ! i) / 5)"
proof -
  have k: "(i - 4) + 4 < length cs" using assms by simp
  have e: "i - 4 + 1 = i - 3" "i - 4 + 2 = i - 2" "i - 4 + 3 = i - 1" "i - 4 + 4 = i"
          "Suc i - 5 = i - 4"
    using assms by simp_all
  have w: "take 5 (drop (i - 4) cs)
           = [cs ! (i - 4), cs ! (i - 3), cs ! (i - 2), cs ! (i - 1), cs ! i]"
    using window5[OF k] by (simp only: e)
  have "rolling_mean 5 cs ! i = Fin (sum_list (take 5 (drop (i - 4) cs)) / 5)"
    using assms by (simp add: rolling_mean_nth e(5))
  then show ?thesis
    by (simp only: w) simp
qed

lemma rolling_mean_last_short:
  assumes "cs \<noteq> []" "length cs < 5"
  shows "last (rolling_mean 5 cs) = NaN"
proof -
  have "rolling_mean 5 cs \<noteq> []"
    using assms(1) length_rolling_mean[of 5 cs] by auto
  then have "last (rolling_mean 5 cs) = rolling_mean 5 cs ! (length cs - 1)"
    by (simp add: last_conv_nth length_rolling_mean)
  also have "\<dots> = NaN"
    using assms by (simp add: rolling_mean_nth)
  finally show ?thesis .
qed

subsection \<open>One round of the main loop\<close>

lemma main_step_found:
  assumes "raw_data s ticker = Some p"
    and "analyze_stock ticker (store s p) = (Inr a, df')"
  shows "main_step ticker s =
           Inr (s\<lparr>store := (store s)(next_addr s := df'),
                   next_addr := Suc (next_addr s),
                   all_analyses := all_analyses s @ [a],
                   charts := charts s @ [(ticker, Adj_Close (store s p),
                                          rolling_mean 5 (Adj_Close (store s p)))]\<rparr>)"
proof -
  have f: "df' = snd (analyze_stock ticker (store s p))" using assms(2) by simp
  have sm: "SMA_5 df' = Some (rolling_mean 5 (Adj_Close (store s p)))"
    and ac: "Adj_Close df' = Adj_Close (store s p)"
    by (simp_all add: f analyze_stock_frame)
  show ?thesis
    using assms sm ac
    by (simp add: main_step_def copy_def analyze_stock_at_def plot_stock_def Let_def)
qed

lemma main_step_raises:
  assumes "raw_data s ticker = Some p"
    and "analyze_stock ticker (store s p) = (Inl e, df')"
  shows "main_step ticker s = Inl e"
  using assms
  by (simp add: main_step_def copy_def analyze_stock_at_def Let_def)

lemma main_step_absent:
  "raw_data s ticker = None \<Longrightarrow> main_step ticker s = Inr s"
  by (simp add: main_step_def)

lemma main_step_keeps:
  assumes "main_step ticker s = Inr s'"
  shows "raw_data s' = raw_data s \<and> next_addr s \<le> next_addr s'
         \<and> (\<forall>p<next_addr s. store s' p = store s p)"
proof (cases "raw_data s ticker")
  case None
  then show ?thesis using assms by (simp add: main_step_absent)
next
  case (Some p)
  show ?thesis
  proof (cases "fst (analyze_stock ticker (store s p))")
    case (Inl e)
    then have "analyze_stock ticker (store s p) = (Inl e,
        snd (analyze_stock ticker (store s p)))"
      by (simp add: prod_eq_iff)
    then show ?thesis using assms main_step_raises[OF Some] by simp
  next
    case (Inr a)
    then have "analyze_stock ticker (store s p) = (Inr a,
        snd (analyze_stock ticker (store s p)))"
      by (simp add: prod_eq_iff)
    from main_step_found[OF Some this] assms show ?thesis by auto
  qed
qed

lemma main_loop_keeps:
  "main_loop tickers s = Inr s' \<Longrightarrow>
   raw_data s' = raw_data s \<and> next_addr s \<le> next_addr s'
   \<and> (\<forall>p<next_addr s. store s' p = store s p)"
proof (induction tickers arbitrary: s)
  case Nil
  then show ?case by simp
next
  case (Cons t ts)
  then obtain s1 where s1: "main_step t s = Inr s1" and l: "main_loop ts s1 = Inr s'"
    by (auto split: sum.splits)
  from main_step_keeps[OF s1] Cons.IH[OF l] show ?case by auto
qed

lemma main_step_signal_return:
  assumes "main_step ticker s = Inr s'"
    and "\<forall>a\<in>set (all_analyses s). Trade_Signal a \<longrightarrow> Last_Return a
        \<noteq> NaN"
  shows "\<forall>a\<in>set (all_analyses s'). Trade_Signal a \<longrightarrow> Last_Return a
      \<noteq> NaN"
proof (cases "raw_data s ticker")
  case None
  then show ?thesis using assms by (simp add: main_step_absent)
next
  case (Some p)
  show ?thesis
  proof (cases "fst (analyze_stock ticker (store s p))")
    case (Inl e)
    then have "analyze_stock ticker (store s p) = (Inl e,
        snd (analyze_stock ticker (store s p)))"
      by (simp add: prod_eq_iff)
    then show ?thesis using assms(1) main_step_raises[OF Some] by simp
  next
    case (Inr a)
    then have r: "analyze_stock ticker (store s p) = (Inr a,
        snd (analyze_stock ticker (store s p)))"
      by (simp add: prod_eq_iff)
    have "Trade_Signal a \<longrightarrow> Last_Return a \<noteq> NaN"
      using analyze_stock_signal_return[OF r] by blast
    then show ?thesis
      using main_step_found[OF Some r] assms by auto
  qed
qed

lemma main_loop_signal_return:
  "main_loop tickers s = Inr s' \<Longrightarrow>
   \<forall>a\<in>set (all_analyses s). Trade_Signal a \<longrightarrow> Last_Return a \<noteq>
       NaN \<Longrightarrow>
   \<forall>a\<in>set (all_analyses s'). Trade_Signal a \<longrightarrow> Last_Return a
       \<noteq> NaN"
proof (induction tickers arbitrary: s)
  case Nil
  then show ?case by simp
next
  case (Cons t ts)
  from Cons.prems(1) obtain s1 where s1: "main_step t s = Inr s1" and l: "main_loop ts s1 = Inr
      s'"
    by (auto split: sum.splits)
  from Cons.IH[OF l main_step_signal_return[OF s1 Cons.prems(2)]] show ?case .
qed

subsection \<open>The signal rule\<close>

text \<open>
  C1. Every analysis that \<open>analyze_stock\<close> returns has its trade signal set exactly
  when the last close is greater than the last 5-day average and the last return is
  greater than zero; the reason is the text of the branch taken; a last close equal to
  the average gives no signal. The three values compared are those of the last row of
  the table.
\<close>

theorem trade_signal_rule:
  assumes "analyze_stock ticker df = (Inr a, df')"
  shows "(Trade_Signal a \<longleftrightarrow> fgt (Last_Close a) (SMA_5_Day a) \<and> fgt
      (Last_Return a) (Fin 0))
       \<and> (Trade_Signal a \<longrightarrow> Reason a = ''Price above 5-day SMA with positive momentum'')
       \<and> (\<not> Trade_Signal a \<longrightarrow> Reason a = ''No strong bullish signal'')
       \<and> (Last_Close a = SMA_5_Day a \<longrightarrow> \<not> Trade_Signal a)
       \<and> Last_Close a = Fin (last (Adj_Close df'))
       \<and> map_option last (SMA_5 df') = Some (SMA_5_Day a)
       \<and> map_option last (Daily_Return df') = Some (Last_Return a)"
proof -
  have f: "df' = snd (analyze_stock ticker df)" using assms by simp
  show ?thesis
    using analyze_stock_result[OF assms] fgt_irrefl[of "SMA_5_Day a"]
    by (simp add: f analyze_stock_frame)
qed

theorem trade_signal_rule_witness:
  "analyze_stock ''X'' \<lparr>Adj_Close = [10, 11, 9, 12, 13, 14], Daily_Return = None,
      SMA_5 = None, other_cols = []\<rparr>
     = (Inr \<lparr>Ticker = ''X'', Last_Close = Fin 14, Last_Return = Fin (100 / 13),
               SMA_5_Day = Fin (59 / 5), Trend_Score = 4, Trade_Signal = True,
               Reason = ''Price above 5-day SMA with positive momentum''\<rparr>,
        \<lparr>Adj_Close = [10, 11, 9, 12, 13, 14],
          Daily_Return = Some [NaN, Fin 10, Fin (- (200 / 11)), Fin (100 / 3), Fin (25 / 3),
              Fin (100 / 13)],
          SMA_5 = Some [NaN, NaN, NaN, NaN, Fin 11, Fin (59 / 5)], other_cols = []\<rparr>)
   \<and> fgt (Fin 14) (Fin (59 / 5)) \<and> fgt (Fin (100 / 13)) (Fin 0)"
proof -
  have h: "analyze_stock ''X'' \<lparr>Adj_Close = [10, 11, 9, 12, 13, 14],
      Daily_Return = None, SMA_5 = None, other_cols = []\<rparr>
     = (Inr \<lparr>Ticker = ''X'', Last_Close = Fin 14, Last_Return = Fin (100 / 13),
               SMA_5_Day = Fin (59 / 5), Trend_Score = 4, Trade_Signal = True,
               Reason = ''Price above 5-day SMA with positive momentum''\<rparr>,
        \<lparr>Adj_Close = [10, 11, 9, 12, 13, 14],
          Daily_Return = Some [NaN, Fin 10, Fin (- (200 / 11)), Fin (100 / 3), Fin (25 / 3),
              Fin (100 / 13)],
          SMA_5 = Some [NaN, NaN, NaN, NaN, Fin 11, Fin (59 / 5)], other_cols = []\<rparr>)"
    by (simp add: analyze_stock_def Let_def scale_def pct_change_def shift1_def
          rolling_mean_def tail_def fgt_def upt_rec)
  show ?thesis
    using h trade_signal_rule[OF h] by simp
qed

subsection \<open>The trend score\<close>

text \<open>
  C2. The trend score of every analysis is the number of rows, among the last five
  rows of the return column (all rows when there are fewer), whose return is greater
  than zero; it lies between 0 and 5.
\<close>

theorem trend_score_counts:
  assumes "analyze_stock ticker df = (Inr a, df')"
  shows "\<exists>rs. Daily_Return df' = Some rs
           \<and> Trend_Score a =
               int (card {i. i < length rs \<and> length rs \<le> i + 5 \<and> fgt (rs ! i)
                   (Fin 0)})
           \<and> 0 \<le> Trend_Score a \<and> Trend_Score a \<le> 5"
proof -
  let ?rs = "scale (pct_change (Adj_Close df)) (Fin 100)"
  have f: "df' = snd (analyze_stock ticker df)" using assms by simp
  have ts: "Trend_Score a = int (length (filter (\<lambda>r. fgt r (Fin 0)) (tail 5 ?rs)))"
    using analyze_stock_result(6)[OF assms] .
  have "length (filter (\<lambda>r. fgt r (Fin 0)) (tail 5 ?rs)) \<le> length (tail 5 ?rs)"
    by (rule length_filter_le)
  then have le: "Trend_Score a \<le> 5"
    using length_tail[of 5 ?rs] ts by linarith
  show ?thesis
    using ts le by (simp add: f analyze_stock_frame card_last_rows)
qed

theorem trend_score_counts_witness:
  "analyze_stock ''X'' \<lparr>Adj_Close = [10, 11, 9, 12, 13, 14], Daily_Return = None,
      SMA_5 = None, other_cols = []\<rparr>
     = (Inr \<lparr>Ticker = ''X'', Last_Close = Fin 14, Last_Return = Fin (100 / 13),
               SMA_5_Day = Fin (59 / 5), Trend_Score = 4, Trade_Signal = True,
               Reason = ''Price above 5-day SMA with positive momentum''\<rparr>,
        \<lparr>Adj_Close = [10, 11, 9, 12, 13, 14],
          Daily_Return = Some [NaN, Fin 10, Fin (- (200 / 11)), Fin (100 / 3), Fin (25 / 3),
              Fin (100 / 13)],
          SMA_5 = Some [NaN, NaN, NaN, NaN, Fin 11, Fin (59 / 5)], other_cols = []\<rparr>)
   \<and> (\<exists>rs. Some [NaN, Fin 10, Fin (- (200 / 11)), Fin (100 / 3), Fin (25 / 3),
       Fin (100 / 13)] = Some rs
         \<and> (4::int) = int (card {i. i < length rs \<and> length rs \<le> i + 5 \<and> fgt
             (rs ! i) (Fin 0)}))"
proof -
  have h: "analyze_stock ''X'' \<lparr>Adj_Close = [10, 11, 9, 12, 13, 14],
      Daily_Return = None, SMA_5 = None, other_cols = []\<rparr>
     = (Inr \<lparr>Ticker = ''X'', Last_Close = Fin 14, Last_Return = Fin (100 / 13),
               SMA_5_Day = Fin (59 / 5), Trend_Score = 4, Trade_Signal = True,
               Reason = ''Price above 5-day SMA with positive momentum''\<rparr>,
        \<lparr>Adj_Close = [10, 11, 9, 12, 13, 14],
          Daily_Return = Some [NaN, Fin 10, Fin (- (200 / 11)), Fin (100 / 3), Fin (25 / 3),
              Fin (100 / 13)],
          SMA_5 = Some [NaN, NaN, NaN, NaN, Fin 11, Fin (59 / 5)], other_cols = []\<rparr>)"
    by (simp add: analyze_stock_def Let_def scale_def pct_change_def shift1_def
          rolling_mean_def tail_def fgt_def upt_rec)
  show ?thesis
    using h trend_score_counts[OF h] by simp
qed

subsection \<open>One indicator row per bar\<close>

text \<open>
  C6. For a table of at least six bars,
      \<open>analyze_stock\<close> leaves the price column as it
  was and adds a return column and an average column of the same length, row \<open>i\<close> of
  each computed from the bars up to \<open>i\<close>: the first return is empty, the averages of
  rows 0 to 3 are empty, every later return is the change against the previous bar in
  percent and every later average is the mean of the five bars ending there.
\<close>

theorem indicator_rows:
  assumes "6 \<le> length (Adj_Close df)" and "analyze_stock ticker df = (r, df')"
  shows "\<exists>rets smas.
           Daily_Return df' = Some rets \<and> SMA_5 df' = Some smas
         \<and> Adj_Close df' = Adj_Close df
         \<and> length rets = length (Adj_Close df) \<and> length smas = length (Adj_Close df)
         \<and> rets ! 0 = NaN
         \<and> (\<forall>i. 0 < i \<and> i < length (Adj_Close df) \<longrightarrow>
               rets ! i = fmul (fsub (fdiv (Fin (Adj_Close df ! i)) (Fin (Adj_Close df ! (i -
                   1))))
                                     (Fin 1)) (Fin 100))
         \<and> (\<forall>i<4. smas ! i = NaN)
         \<and> (\<forall>i. 4 \<le> i \<and> i < length (Adj_Close df) \<longrightarrow>
               smas ! i = Fin ((Adj_Close df ! (i - 4) + Adj_Close df ! (i - 3)
                                + Adj_Close df ! (i - 2) + Adj_Close df ! (i - 1)
                                + Adj_Close df ! i) / 5))"
proof -
  let ?cs = "Adj_Close df"
  have f: "df' = snd (analyze_stock ticker df)" using assms(2) by simp
  have ne: "?cs \<noteq> []" using assms(1) by auto
  have r0: "scale (pct_change ?cs) (Fin 100) ! 0 = NaN"
    using ne by (simp add: scale_nth length_pct_change pct_change_0)
  have ri: "\<forall>i. 0 < i \<and> i < length ?cs \<longrightarrow>
              scale (pct_change ?cs) (Fin 100) ! i
              = fmul (fsub (fdiv (Fin (?cs ! i)) (Fin (?cs ! (i - 1)))) (Fin 1)) (Fin 100)"
    by (simp add: scale_nth length_pct_change pct_change_nth)
  have s0: "\<forall>i<4. rolling_mean 5 ?cs ! i = NaN"
    using assms(1) by (simp add: rolling_mean_nth)
  have si: "\<forall>i. 4 \<le> i \<and> i < length ?cs \<longrightarrow>
              rolling_mean 5 ?cs ! i
              = Fin ((?cs ! (i - 4) + ?cs ! (i - 3) + ?cs ! (i - 2) + ?cs ! (i - 1) + ?cs ! i)
                  / 5)"
    using rolling_mean_5_nth by blast
  show ?thesis
    using r0 ri s0 si
    by (simp add: f analyze_stock_frame length_scale length_pct_change length_rolling_mean)
qed

theorem indicator_rows_witness:
  "6 \<le> length (Adj_Close \<lparr>Adj_Close = [10, 11, 9, 12, 13, 14], Daily_Return = None,
      SMA_5 = None, other_cols = []\<rparr>)
   \<and> analyze_stock ''X'' \<lparr>Adj_Close = [10, 11, 9, 12, 13, 14], Daily_Return = None,
       SMA_5 = None, other_cols = []\<rparr>
     = (Inr \<lparr>Ticker = ''X'', Last_Close = Fin 14, Last_Return = Fin (100 / 13),
               SMA_5_Day = Fin (59 / 5), Trend_Score = 4, Trade_Signal = True,
               Reason = ''Price above 5-day SMA with positive momentum''\<rparr>,
        \<lparr>Adj_Close = [10, 11, 9, 12, 13, 14],
          Daily_Return = Some [NaN, Fin 10, Fin (- (200 / 11)), Fin (100 / 3), Fin (25 / 3),
              Fin (100 / 13)],
          SMA_5 = Some [NaN, NaN, NaN, NaN, Fin 11, Fin (59 / 5)], other_cols = []\<rparr>)
   \<and> [NaN, Fin 10, Fin (- (200 / 11)), Fin (100 / 3), Fin (25 / 3),
       Fin (100 / 13)] ! 0 = NaN
   \<and> [NaN, NaN, NaN, NaN, Fin 11, Fin (59 / 5)] ! 3 = NaN
   \<and> [NaN, NaN, NaN, NaN, Fin 11, Fin (59 / 5)] ! 5 = Fin ((11 + 9 + 12 + 13 + 14) / 5)"
proof -
  have l: "6 \<le> length (Adj_Close \<lparr>Adj_Close = [10, 11, 9, 12, 13, 14],
      Daily_Return = None, SMA_5 = None, other_cols = []\<rparr>)"
    by simp
  have h: "analyze_stock ''X'' \<lparr>Adj_Close = [10, 11, 9, 12, 13, 14],
      Daily_Return = None, SMA_5 = None, other_cols = []\<rparr>
     = (Inr \<lparr>Ticker = ''X'', Last_Close = Fin 14, Last_Return = Fin (100 / 13),
               SMA_5_Day = Fin (59 / 5), Trend_Score = 4, Trade_Signal = True,
               Reason = ''Price above 5-day SMA with positive momentum''\<rparr>,
        \<lparr>Adj_Close = [10, 11, 9, 12, 13, 14],
          Daily_Return = Some [NaN, Fin 10, Fin (- (200 / 11)), Fin (100 / 3), Fin (25 / 3),
              Fin (100 / 13)],
          SMA_5 = Some [NaN, NaN, NaN, NaN, Fin 11, Fin (59 / 5)], other_cols = []\<rparr>)"
    by (simp add: analyze_stock_def Let_def scale_def pct_change_def shift1_def
          rolling_mean_def tail_def fgt_def upt_rec)
  show ?thesis
    using l h indicator_rows[OF l h] by simp
qed

subsection \<open>The example series\<close>

text \<open>
  C7. For the closes 10, 11, 9, 12, 13, 14 the last return is (14 - 13) / 13 * 100 =
  100/13, which lies between 7.69 and 7.70, the last average is the mean of 11, 9, 12,
  13, 14, that is 11.8, and the analysis has the trade signal with the reason of the
  bullish branch. (Finite values are exact here; the trend score is 4.)
\<close>

theorem example_series_analysis:
  "fst (analyze_stock ticker
          \<lparr>Adj_Close = [10, 11, 9, 12, 13, 14], Daily_Return = dr, SMA_5 = sm,
              other_cols = oc\<rparr>)
   = Inr \<lparr>Ticker = ticker, Last_Close = Fin 14, Last_Return = Fin (100 / 13),
          SMA_5_Day = Fin (118 / 10), Trend_Score = 4, Trade_Signal = True,
          Reason = ''Price above 5-day SMA with positive momentum''\<rparr>
   \<and> (100 / 13 :: rat) = (14 - 13) / 13 * 100
   \<and> (769 / 100 :: rat) < 100 / 13 \<and> (100 / 13 :: rat) < 770 / 100
   \<and> (118 / 10 :: rat) = (11 + 9 + 12 + 13 + 14) / 5"
  by (simp add: analyze_stock_def Let_def scale_def pct_change_def shift1_def rolling_mean_def
        tail_def fgt_def upt_rec)

subsection \<open>Running the analysis again\<close>

text \<open>
  C8. The analysis keeps no state but the two columns it writes, and these depend on
  the price column only: running \<open>analyze_stock\<close> again on the table that a first
      run
  has left gives the same result and leaves the table as it is.
\<close>

theorem analyze_stock_rerun:
  assumes "analyze_stock ticker df = (r, df')"
  shows "analyze_stock ticker df' = (r, df')"
proof -
  have f: "df' = snd (analyze_stock ticker df)" using assms by simp
  have c: "Adj_Close df' = Adj_Close df" by (simp add: f analyze_stock_frame)
  have s: "snd (analyze_stock ticker df') = df'"
    by (simp add: analyze_stock_frame[of ticker df'] c) (simp add: f analyze_stock_frame)
  have "fst (analyze_stock ticker df') = fst (analyze_stock ticker df)"
    by (simp add: analyze_stock_def Let_def c split: prod.splits)
  then show ?thesis using s assms by (simp add: prod_eq_iff)
qed

theorem analyze_stock_rerun_witness:
  "analyze_stock ''X'' \<lparr>Adj_Close = [10, 11, 9, 12, 13, 14], Daily_Return = None,
      SMA_5 = None, other_cols = []\<rparr>
     = (Inr \<lparr>Ticker = ''X'', Last_Close = Fin 14, Last_Return = Fin (100 / 13),
               SMA_5_Day = Fin (59 / 5), Trend_Score = 4, Trade_Signal = True,
               Reason = ''Price above 5-day SMA with positive momentum''\<rparr>,
        \<lparr>Adj_Close = [10, 11, 9, 12, 13, 14],
          Daily_Return = Some [NaN, Fin 10, Fin (- (200 / 11)), Fin (100 / 3), Fin (25 / 3),
              Fin (100 / 13)],
          SMA_5 = Some [NaN, NaN, NaN, NaN, Fin 11, Fin (59 / 5)], other_cols = []\<rparr>)
   \<and> analyze_stock ''X'' \<lparr>Adj_Close = [10, 11, 9, 12, 13, 14],
          Daily_Return = Some [NaN, Fin 10, Fin (- (200 / 11)), Fin (100 / 3), Fin (25 / 3),
              Fin (100 / 13)],
          SMA_5 = Some [NaN, NaN, NaN, NaN, Fin 11, Fin (59 / 5)], other_cols = []\<rparr>
     = (Inr \<lparr>Ticker = ''X'', Last_Close = Fin 14, Last_Return = Fin (100 / 13),
               SMA_5_Day = Fin (59 / 5), Trend_Score = 4, Trade_Signal = True,
               Reason = ''Price above 5-day SMA with positive momentum''\<rparr>,
        \<lparr>Adj_Close = [10, 11, 9, 12, 13, 14],
          Daily_Return = Some [NaN, Fin 10, Fin (- (200 / 11)), Fin (100 / 3), Fin (25 / 3),
              Fin (100 / 13)],
          SMA_5 = Some [NaN, NaN, NaN, NaN, Fin 11, Fin (59 / 5)], other_cols = []\<rparr>)"
proof -
  have h: "analyze_stock ''X'' \<lparr>Adj_Close = [10, 11, 9, 12, 13, 14],
      Daily_Return = None, SMA_5 = None, other_cols = []\<rparr>
     = (Inr \<lparr>Ticker = ''X'', Last_Close = Fin 14, Last_Return = Fin (100 / 13),
               SMA_5_Day = Fin (59 / 5), Trend_Score = 4, Trade_Signal = True,
               Reason = ''Price above 5-day SMA with positive momentum''\<rparr>,
        \<lparr>Adj_Close = [10, 11, 9, 12, 13, 14],
          Daily_Return = Some [NaN, Fin 10, Fin (- (200 / 11)), Fin (100 / 3), Fin (25 / 3),
              Fin (100 / 13)],
          SMA_5 = Some [NaN, NaN, NaN, NaN, Fin 11, Fin (59 / 5)], other_cols = []\<rparr>)"
    by (simp add: analyze_stock_def Let_def scale_def pct_change_def shift1_def
          rolling_mean_def tail_def fgt_def upt_rec)
  show ?thesis
    using h analyze_stock_rerun[OF h] by simp
qed

subsection \<open>Series shorter than five bars\<close>

text \<open>
  C4, as the program behaves. There is no check of the length of a series. A series
  of one to four bars is analysed like any other: the 5-day average of its last row is
  not-a-number, so the comparison fails, the analysis has the reason of the other branch,
  and the main loop appends it to the collection.
\<close>

theorem short_series_analysis:
  assumes "raw_data s ticker = Some p"
    and "0 < length (Adj_Close (store s p))"
    and "length (Adj_Close (store s p)) < 5"
  shows "\<exists>a df' s'. analyze_stock ticker (store s p) = (Inr a, df')
           \<and> SMA_5_Day a = NaN \<and> \<not> Trade_Signal a
           \<and> Reason a = ''No strong bullish signal''
           \<and> main_step ticker s = Inr s'
           \<and> all_analyses s' = all_analyses s @ [a]"
proof -
  have ne: "Adj_Close (store s p) \<noteq> []" using assms(2) by auto
  obtain a where a: "fst (analyze_stock ticker (store s p)) = Inr a"
    using analyze_stock_nonempty[OF ne] by blast
  define df' where "df' = snd (analyze_stock ticker (store s p))"
  have r: "analyze_stock ticker (store s p) = (Inr a, df')"
    using a by (simp add: df'_def prod_eq_iff)
  have sma: "SMA_5_Day a = NaN"
    using analyze_stock_result(5)[OF r] rolling_mean_last_short[OF ne assms(3)] by simp
  have sig: "\<not> Trade_Signal a"
    using analyze_stock_result(7)[OF r] sma by (simp add: fgt_def flt_NaN_right)
  have rea: "Reason a = ''No strong bullish signal''"
    using analyze_stock_result(8)[OF r] sig by simp
  show ?thesis
    using r sma sig rea main_step_found[OF assms(1) r] by simp
qed

theorem short_series_analysis_witness:
  "main_step ''X'' \<lparr>store = (\<lambda>p. \<lparr>Adj_Close = [10, 11, 12],
      Daily_Return = None, SMA_5 = None, other_cols = []\<rparr>), next_addr = 1,
      raw_data = [''X'' \<mapsto> 0], all_analyses = [], charts = []\<rparr>
   = Inr \<lparr>store = (\<lambda>p. \<lparr>Adj_Close = [10, 11, 12], Daily_Return = None,
       SMA_5 = None, other_cols = []\<rparr>)(1 := \<lparr>Adj_Close = [10, 11, 12],
       Daily_Return = Some [NaN, Fin 10, Fin (100 / 11)], SMA_5 = Some [NaN, NaN, NaN],
       other_cols = []\<rparr>), next_addr = 2, raw_data = [''X'' \<mapsto> 0],
       all_analyses = [\<lparr>Ticker = ''X'', Last_Close = Fin 12,
       Last_Return = Fin (100 / 11), SMA_5_Day = NaN, Trend_Score = 2, Trade_Signal = False,
       Reason = ''No strong bullish signal''\<rparr>], charts = [(''X'', [10, 11, 12], [NaN,
       NaN, NaN])]\<rparr>"
proof -
  let ?s = "\<lparr>store = (\<lambda>p. \<lparr>Adj_Close = [10, 11, 12], Daily_Return = None,
      SMA_5 = None, other_cols = []\<rparr>), next_addr = 1, raw_data = [''X'' \<mapsto> 0],
      all_analyses = [], charts = []\<rparr>"
  have h1: "raw_data ?s ''X'' = Some 0" by simp
  have h2: "0 < length (Adj_Close (store ?s 0))" by simp
  have h3: "length (Adj_Close (store ?s 0)) < 5" by simp
  have e: "analyze_stock ''X'' \<lparr>Adj_Close = [10, 11, 12], Daily_Return = None,
      SMA_5 = None, other_cols = []\<rparr>
           = (Inr \<lparr>Ticker = ''X'', Last_Close = Fin 12, Last_Return = Fin (100 / 11),
               SMA_5_Day = NaN, Trend_Score = 2, Trade_Signal = False,
               Reason = ''No strong bullish signal''\<rparr>,
              \<lparr>Adj_Close = [10, 11, 12], Daily_Return = Some [NaN, Fin 10,
                  Fin (100 / 11)], SMA_5 = Some [NaN, NaN, NaN], other_cols = []\<rparr>)"
    by (simp add: analyze_stock_def Let_def scale_def pct_change_def shift1_def
        rolling_mean_def tail_def fgt_def upt_rec)
  show ?thesis
    using short_series_analysis[OF h1 h2 h3] e
    by (auto simp add: main_step_def copy_def analyze_stock_at_def plot_stock_def Let_def)
qed

text \<open>
  C4, as stated, fails: a series of three bars is not refused, it gets an analysis.
\<close>

theorem short_series_not_refused:
  "fst (analyze_stock ''X'' \<lparr>Adj_Close = [10, 11, 12], Daily_Return = None,
      SMA_5 = None, other_cols = []\<rparr>)
   = Inr \<lparr>Ticker = ''X'', Last_Close = Fin 12, Last_Return = Fin (100 / 11),
       SMA_5_Day = NaN, Trend_Score = 2, Trade_Signal = False,
       Reason = ''No strong bullish signal''\<rparr>"
  by (simp add: analyze_stock_def Let_def scale_def pct_change_def shift1_def rolling_mean_def
      tail_def fgt_def upt_rec)

subsection \<open>A previous close of zero\<close>

text \<open>
  C5, as the program behaves. The division is a float division and raises nothing:
  where the previous close is zero, the return of the bar is an infinity when its own
  close is not zero and not-a-number when it is zero, and \<open>analyze_stock\<close> returns an
  analysis.
\<close>

theorem zero_previous_close:
  assumes "0 < i" and "i < length (Adj_Close df)" and "Adj_Close df ! (i - 1) = 0"
  shows "\<exists>a df' rets. analyze_stock ticker df = (Inr a, df')
           \<and> Daily_Return df' = Some rets
           \<and> (if Adj_Close df ! i = 0 then rets ! i = NaN
              else rets ! i = PosInf \<or> rets ! i = NegInf)"
proof -
  have ne: "Adj_Close df \<noteq> []" using assms(2) by auto
  obtain a where a: "fst (analyze_stock ticker df) = Inr a"
    using analyze_stock_nonempty[OF ne] by blast
  have r: "analyze_stock ticker df = (Inr a, snd (analyze_stock ticker df))"
    using a by (simp add: prod_eq_iff)
  have "scale (pct_change (Adj_Close df)) (Fin 100) ! i
        = fmul (fsub (fdiv (Fin (Adj_Close df ! i)) (Fin 0)) (Fin 1)) (Fin 100)"
    using assms by (simp add: scale_nth length_pct_change pct_change_nth)
  then have "if Adj_Close df ! i = 0
             then scale (pct_change (Adj_Close df)) (Fin 100) ! i = NaN
             else scale (pct_change (Adj_Close df)) (Fin 100) ! i = PosInf
                  \<or> scale (pct_change (Adj_Close df)) (Fin 100) ! i = NegInf"
    by auto
  then show ?thesis
    using r by (simp add: analyze_stock_frame)
qed

theorem zero_previous_close_witness:
  "Adj_Close \<lparr>Adj_Close = [10, 0, 5, 6, 7, 8], Daily_Return = None, SMA_5 = None,
      other_cols = []\<rparr> ! (2 - 1) = 0
   \<and> analyze_stock ''X'' \<lparr>Adj_Close = [10, 0, 5, 6, 7, 8], Daily_Return = None,
       SMA_5 = None, other_cols = []\<rparr>
     = (Inr \<lparr>Ticker = ''X'', Last_Close = Fin 8, Last_Return = Fin (100 / 7),
         SMA_5_Day = Fin (26 / 5), Trend_Score = 4, Trade_Signal = True,
         Reason = ''Price above 5-day SMA with positive momentum''\<rparr>,
        \<lparr>Adj_Close = [10, 0, 5, 6, 7, 8], Daily_Return = Some [NaN, Fin (- 100), PosInf,
            Fin 20, Fin (50 / 3), Fin (100 / 7)], SMA_5 = Some [NaN, NaN, NaN, NaN,
            Fin (28 / 5), Fin (26 / 5)], other_cols = []\<rparr>)
   \<and> ([NaN, Fin (- 100), PosInf, Fin 20, Fin (50 / 3), Fin (100 / 7)] ! 2 = PosInf
        \<or> [NaN, Fin (- 100), PosInf, Fin 20, Fin (50 / 3), Fin (100 / 7)] ! 2 = NegInf)"
proof -
  let ?df = "\<lparr>Adj_Close = [10, 0, 5, 6, 7, 8], Daily_Return = None, SMA_5 = None,
      other_cols = []\<rparr>"
  have h1: "(0::nat) < 2" by simp
  have h2: "2 < length (Adj_Close ?df)" by simp
  have h3: "Adj_Close ?df ! (2 - 1) = 0" by simp
  have e: "analyze_stock ''X'' ?df
     = (Inr \<lparr>Ticker = ''X'', Last_Close = Fin 8, Last_Return = Fin (100 / 7),
         SMA_5_Day = Fin (26 / 5), Trend_Score = 4, Trade_Signal = True,
         Reason = ''Price above 5-day SMA with positive momentum''\<rparr>,
        \<lparr>Adj_Close = [10, 0, 5, 6, 7, 8], Daily_Return = Some [NaN, Fin (- 100), PosInf,
            Fin 20, Fin (50 / 3), Fin (100 / 7)], SMA_5 = Some [NaN, NaN, NaN, NaN,
            Fin (28 / 5), Fin (26 / 5)], other_cols = []\<rparr>)"
    by (simp add: analyze_stock_def Let_def scale_def pct_change_def shift1_def
        rolling_mean_def tail_def fgt_def upt_rec)
  show ?thesis
    using zero_previous_close[OF h1 h2 h3, of "''X''"] e by simp
qed

text \<open>
  C5, as stated, fails: a series with a zero close in its second bar raises nothing.
\<close>

theorem zero_close_not_refused:
  "analyze_stock ''X'' \<lparr>Adj_Close = [10, 0, 5, 6, 7, 8], Daily_Return = None,
      SMA_5 = None, other_cols = []\<rparr>
   = (Inr \<lparr>Ticker = ''X'', Last_Close = Fin 8, Last_Return = Fin (100 / 7),
       SMA_5_Day = Fin (26 / 5), Trend_Score = 4, Trade_Signal = True,
       Reason = ''Price above 5-day SMA with positive momentum''\<rparr>,
      \<lparr>Adj_Close = [10, 0, 5, 6, 7, 8], Daily_Return = Some [NaN, Fin (- 100), PosInf,
          Fin 20, Fin (50 / 3), Fin (100 / 7)], SMA_5 = Some [NaN, NaN, NaN, NaN, Fin (28 / 5),
          Fin (26 / 5)], other_cols = []\<rparr>)"
  by (simp add: analyze_stock_def Let_def scale_def pct_change_def shift1_def rolling_mean_def
      tail_def fgt_def upt_rec)

subsection \<open>What the analysis changes\<close>

text \<open>
  C9, as the program behaves. \<open>analyze_stock\<close> writes the columns
  \<open>Daily Return %\<close> and \<open>SMA_5\<close> into the table it is given and changes
      nothing else
  of it. The main loop hands it a copy of the fetched table, so every table that
  existed before the loop, the fetched ones among them, is left as it was.
\<close>

theorem table_effect:
  "snd (analyze_stock ticker df)
     = df\<lparr>Daily_Return := Some (scale (pct_change (Adj_Close df)) (Fin 100)),
          SMA_5 := Some (rolling_mean 5 (Adj_Close df))\<rparr>
   \<and> (\<forall>s'. main_loop tickers s = Inr s' \<longrightarrow>
         raw_data s' = raw_data s \<and> (\<forall>p<next_addr s. store s' p = store s p))"
  using analyze_stock_frame main_loop_keeps by blast

theorem table_effect_witness:
  "main_loop [''X''] \<lparr>store = (\<lambda>p. \<lparr>Adj_Close = [10, 11, 12],
      Daily_Return = None, SMA_5 = None, other_cols = []\<rparr>), next_addr = 1,
      raw_data = [''X'' \<mapsto> 0], all_analyses = [], charts = []\<rparr>
   = Inr \<lparr>store = (\<lambda>p. \<lparr>Adj_Close = [10, 11, 12], Daily_Return = None,
       SMA_5 = None, other_cols = []\<rparr>)(1 := \<lparr>Adj_Close = [10, 11, 12],
       Daily_Return = Some [NaN, Fin 10, Fin (100 / 11)], SMA_5 = Some [NaN, NaN, NaN],
       other_cols = []\<rparr>), next_addr = 2, raw_data = [''X'' \<mapsto> 0],
       all_analyses = [\<lparr>Ticker = ''X'', Last_Close = Fin 12,
       Last_Return = Fin (100 / 11), SMA_5_Day = NaN, Trend_Score = 2, Trade_Signal = False,
       Reason = ''No strong bullish signal''\<rparr>], charts = [(''X'', [10, 11, 12], [NaN,
       NaN, NaN])]\<rparr>
   \<and> store \<lparr>store = (\<lambda>p. \<lparr>Adj_Close = [10, 11, 12],
       Daily_Return = None, SMA_5 = None,
       other_cols = []\<rparr>)(1 := \<lparr>Adj_Close = [10, 11, 12],
       Daily_Return = Some [NaN, Fin 10, Fin (100 / 11)], SMA_5 = Some [NaN, NaN, NaN],
       other_cols = []\<rparr>), next_addr = 2, raw_data = [''X'' \<mapsto> 0],
       all_analyses = [\<lparr>Ticker = ''X'', Last_Close = Fin 12,
       Last_Return = Fin (100 / 11), SMA_5_Day = NaN, Trend_Score = 2, Trade_Signal = False,
       Reason = ''No strong bullish signal''\<rparr>], charts = [(''X'', [10, 11, 12], [NaN,
       NaN, NaN])]\<rparr> 0
     = \<lparr>Adj_Close = [10, 11, 12], Daily_Return = None, SMA_5 = None,
         other_cols = []\<rparr>"
proof -
  let ?s = "\<lparr>store = (\<lambda>p. \<lparr>Adj_Close = [10, 11, 12], Daily_Return = None,
      SMA_5 = None, other_cols = []\<rparr>), next_addr = 1, raw_data = [''X'' \<mapsto> 0],
      all_analyses = [], charts = []\<rparr>"
  let ?s' = "\<lparr>store = (\<lambda>p. \<lparr>Adj_Close = [10, 11, 12],
      Daily_Return = None, SMA_5 = None, other_cols = []\<rparr>)(1 := \<lparr>Adj_Close = [10,
      11, 12], Daily_Return = Some [NaN, Fin 10, Fin (100 / 11)], SMA_5 = Some [NaN, NaN, NaN],
      other_cols = []\<rparr>), next_addr = 2, raw_data = [''X'' \<mapsto> 0],
      all_analyses = [\<lparr>Ticker = ''X'', Last_Close = Fin 12,
      Last_Return = Fin (100 / 11), SMA_5_Day = NaN, Trend_Score = 2, Trade_Signal = False,
      Reason = ''No strong bullish signal''\<rparr>], charts = [(''X'', [10, 11, 12], [NaN,
      NaN, NaN])]\<rparr>"
  have e: "analyze_stock ''X'' \<lparr>Adj_Close = [10, 11, 12], Daily_Return = None,
      SMA_5 = None, other_cols = []\<rparr>
           = (Inr \<lparr>Ticker = ''X'', Last_Close = Fin 12, Last_Return = Fin (100 / 11),
               SMA_5_Day = NaN, Trend_Score = 2, Trade_Signal = False,
               Reason = ''No strong bullish signal''\<rparr>,
              \<lparr>Adj_Close = [10, 11, 12], Daily_Return = Some [NaN, Fin 10,
                  Fin (100 / 11)], SMA_5 = Some [NaN, NaN, NaN], other_cols = []\<rparr>)"
    by (simp add: analyze_stock_def Let_def scale_def pct_change_def shift1_def
        rolling_mean_def tail_def fgt_def upt_rec)
  have h: "main_loop [''X''] ?s = Inr ?s'"
    using e by (simp add: main_step_def copy_def analyze_stock_at_def plot_stock_def Let_def)
  show ?thesis
    using h table_effect[of "''X''" "\<lparr>Adj_Close = [10, 11, 12], Daily_Return = None,
        SMA_5 = None, other_cols = []\<rparr>" "[''X'']" ?s] by simp
qed

text \<open>
  C9, as stated, fails: the table passed to \<open>analyze_stock\<close> comes back with two
  columns it did not have.
\<close>

theorem analyze_stock_changes_table:
  "snd (analyze_stock ''X''
          \<lparr>Adj_Close = [1, 2], Daily_Return = None, SMA_5 = None,
              other_cols = []\<rparr>)
   \<noteq> \<lparr>Adj_Close = [1, 2], Daily_Return = None, SMA_5 = None,
       other_cols = []\<rparr>
   \<and> snd (analyze_stock ''X''
          \<lparr>Adj_Close = [1, 2], Daily_Return = None, SMA_5 = None,
              other_cols = []\<rparr>)
   = \<lparr>Adj_Close = [1, 2], Daily_Return = Some [NaN, Fin 100], SMA_5 = Some [NaN, NaN],
      other_cols = []\<rparr>"
  by (simp add: analyze_stock_def Let_def scale_def pct_change_def shift1_def
        rolling_mean_def tail_def fgt_def upt_rec)


section \<open>Properties of the choice of the best candidate\<close>

subsection \<open>The order of the keys\<close>

lemma tuple_lt_irrefl: "\<not> tuple_lt k k"
  by (cases k; cases "snd k") (auto simp: feq_def)

lemma flt_asym: "flt a b \<Longrightarrow> \<not> flt b a"
  by (cases a; cases b) auto

lemma flt_trans: "flt a b \<Longrightarrow> flt b c \<Longrightarrow> flt a c"
  by (cases a; cases b; cases c) auto

lemma flt_total: "a \<noteq> NaN \<Longrightarrow> b \<noteq> NaN \<Longrightarrow> flt a b
    \<or> a = b \<or> flt b a"
  by (cases a; cases b) auto

lemma tuple_lt_asym: "tuple_lt a b \<Longrightarrow> \<not> tuple_lt b a"
  by (cases a; cases b) (auto simp: feq_def dest: flt_asym split: if_splits)

lemma tuple_lt_trans: "tuple_lt a b \<Longrightarrow> tuple_lt b c \<Longrightarrow> tuple_lt a
    c"
  apply (cases a; cases b; cases c)
  apply (auto simp: feq_def split: if_splits dest: flt_trans flt_asym)
  done

lemma tuple_lt_cases:
  assumes "snd a \<noteq> NaN" "snd b \<noteq> NaN"
  shows "tuple_lt a b \<or> a = b \<or> tuple_lt b a"
  using assms flt_total[of "snd a" "snd b"]
  by (cases a; cases b) (auto simp: feq_def)

lemma tuple_lt_le_trans:
  assumes "snd x \<noteq> NaN" "snd y \<noteq> NaN" "snd z \<noteq> NaN"
    and "tuple_lt x y" "\<not> tuple_lt z y"
  shows "tuple_lt x z"
  using tuple_lt_cases[OF assms(2,3)] assms(4,5) tuple_lt_trans by blast

lemma tuple_ge_iff:
  assumes "r1 \<noteq> NaN" "r2 \<noteq> NaN"
  shows "\<not> tuple_lt (t1, r1) (t2,
      r2) \<longleftrightarrow> t2 < t1 \<or> (t1 = t2 \<and> \<not> flt r1 r2)"
  using assms by (auto simp: feq_def dest: flt_asym)

subsection \<open>The sort\<close>

lemma mset_insert_sorted: "mset (insert_sorted key lt x ys) = add_mset x (mset ys)"
  by (induction ys) simp_all

lemma set_insert_sorted: "set (insert_sorted key lt x ys) = insert x (set ys)"
  by (induction ys) auto


lemma stable_sort_rev:
  "stable_sort key lt (rev xs) = foldr (insert_sorted key lt) xs []"
  by (simp add: stable_sort_def foldl_conv_foldr)

lemma sorted_py_reverse:
  "sorted_py key lt True xs = rev (foldr (insert_sorted key lt) xs [])"
  by (simp add: sorted_py_def stable_sort_rev)

lemma mset_foldr_insert: "mset (foldr (insert_sorted key lt) xs []) = mset xs"
  by (induction xs) (simp_all add: mset_insert_sorted)

lemma mset_sorted_py_reverse: "mset (sorted_py key lt True xs) = mset xs"
  by (simp add: sorted_py_reverse mset_foldr_insert)


text \<open>
  Insertion keeps an ascending list ascending when no key holds not-a-number, that is
  when the keys are totally ordered.
\<close>

lemma sorted_insert_sorted:
  assumes "\<forall>a\<in>set (x # ys). Last_Return a \<noteq> NaN"
    and "sorted_wrt (\<lambda>a b. \<not> tuple_lt (rank_key b) (rank_key a)) ys"
  shows "sorted_wrt (\<lambda>a b. \<not> tuple_lt (rank_key b) (rank_key a))
           (insert_sorted rank_key tuple_lt x ys)"
  using assms
proof (induction ys)
  case Nil
  then show ?case by simp
next
  case (Cons y ys)
  show ?case
  proof (cases "tuple_lt (rank_key x) (rank_key y)")
    case True
    have "\<not> tuple_lt (rank_key z) (rank_key x)" if z: "z \<in> set (y # ys)" for z
    proof -
      have zy: "\<not> tuple_lt (rank_key z) (rank_key y)"
      proof (cases "z = y")
        case True
        then show ?thesis by (simp only: tuple_lt_irrefl not_False_eq_True)
      next
        case False
        then show ?thesis using z Cons.prems(2) by auto
      qed
      have n: "snd (rank_key x) \<noteq> NaN" "snd (rank_key y) \<noteq> NaN" "snd (rank_key z)
          \<noteq> NaN"
        using Cons.prems(1) z by (auto simp: rank_key_def)
      have "tuple_lt (rank_key x) (rank_key z)"
        using tuple_lt_le_trans[OF n True zy] .
      then show ?thesis using tuple_lt_asym by blast
    qed
    then show ?thesis using True Cons.prems(2) by simp
  next
    case False
    have "sorted_wrt (\<lambda>a b. \<not> tuple_lt (rank_key b) (rank_key a))
            (insert_sorted rank_key tuple_lt x ys)"
      using Cons.IH Cons.prems by simp
    then show ?thesis
      using False Cons.prems(2) by (auto simp: set_insert_sorted)
  qed
qed

lemma sorted_foldr_insert:
  assumes "\<forall>a\<in>set xs. Last_Return a \<noteq> NaN"
  shows "sorted_wrt (\<lambda>a b. \<not> tuple_lt (rank_key b) (rank_key a))
           (foldr (insert_sorted rank_key tuple_lt) xs [])"
  using assms
proof (induction xs)
  case Nil
  then show ?case by simp
next
  case (Cons x xs)
  have s: "set (foldr (insert_sorted rank_key tuple_lt) xs []) = set xs"
    using mset_foldr_insert[of rank_key tuple_lt xs] by (metis set_mset_mset)
  show ?case
    using sorted_insert_sorted[of x "foldr (insert_sorted rank_key tuple_lt) xs []"]
      Cons.IH Cons.prems s by simp
qed

lemma sorted_py_descending:
  assumes "\<forall>a\<in>set xs. Last_Return a \<noteq> NaN"
  shows "sorted_wrt (\<lambda>a b. \<not> tuple_lt (rank_key a) (rank_key b))
           (sorted_py rank_key tuple_lt True xs)"
  using sorted_foldr_insert[OF assms] by (simp add: sorted_py_reverse sorted_wrt_rev)




lemma suggest_best_trade_none:
  "filter Trade_Signal analyses = [] \<Longrightarrow> suggest_best_trade analyses = Inr
      NoCandidate"
  by (simp add: suggest_best_trade_def)






subsection \<open>Filter, sort, take the first\<close>

text \<open>
  C3. \<open>suggest_best_trade\<close> keeps the records whose trade signal is set. If none is
  left it reports that there is no candidate, which is a result and not an error.
  Otherwise it reports the first record of the sorted candidates; the sorted list is a
  rearrangement of the candidates, and it is descending by trend score, with the last
  return deciding between equal trend scores, whenever no candidate's last return is
  not-a-number. Every record with a signal that \<open>analyze_stock\<close> returns has a last
  return greater than zero (\<open>analyze_stock_signal_return\<close>), so this holds for every
  list the main loop collects (\<open>main_loop_signal_return\<close>).
\<close>

theorem ranker_filter_sort_first:
  "(filter Trade_Signal analyses = [] \<longrightarrow> suggest_best_trade analyses = Inr
      NoCandidate)
   \<and> (filter Trade_Signal analyses \<noteq> [] \<longrightarrow>
        (\<exists>b rest.
            sorted_py rank_key tuple_lt True (filter Trade_Signal analyses) = b # rest
          \<and> suggest_best_trade analyses = Inr (Best b)
          \<and> mset (b # rest) = mset (filter Trade_Signal analyses)
          \<and> ((\<forall>a\<in>set analyses. Trade_Signal a \<longrightarrow> Last_Return a
              \<noteq> NaN) \<longrightarrow>
               sorted_wrt (\<lambda>a c. Trend_Score c < Trend_Score a
                                 \<or> (Trend_Score a = Trend_Score c
                                    \<and> \<not> flt (Last_Return a) (Last_Return c)))
                 (b # rest))))"
proof (intro conjI impI)
  assume "filter Trade_Signal analyses = []"
  then show "suggest_best_trade analyses = Inr NoCandidate"
    by (rule suggest_best_trade_none)
next
  let ?cs = "filter Trade_Signal analyses"
  let ?L = "sorted_py rank_key tuple_lt True ?cs"
  assume ne: "?cs \<noteq> []"
  have m: "mset ?L = mset ?cs" by (rule mset_sorted_py_reverse)
  then have "?L \<noteq> []" using ne by (metis mset_zero_iff)
  then obtain b rest where L: "?L = b # rest" by (cases ?L) auto
  have r: "suggest_best_trade analyses = Inr (Best b)"
    using ne L by (simp add: suggest_best_trade_def)
  have o: "sorted_wrt (\<lambda>a c. Trend_Score c < Trend_Score a
                                 \<or> (Trend_Score a = Trend_Score c
                                    \<and> \<not> flt (Last_Return a) (Last_Return c))) (b #
                                        rest)"
    if nn: "\<forall>a\<in>set analyses. Trade_Signal a \<longrightarrow> Last_Return a
        \<noteq> NaN"
  proof -
    have c: "\<forall>a\<in>set ?cs. Last_Return a \<noteq> NaN" using nn by simp
    have sL: "set ?L = set ?cs" using m by (metis set_mset_mset)
    have "sorted_wrt (\<lambda>a b. \<not> tuple_lt (rank_key a) (rank_key b)) ?L"
      using sorted_py_descending[OF c] .
    then have "sorted_wrt (\<lambda>a c. Trend_Score c < Trend_Score a
                                 \<or> (Trend_Score a = Trend_Score c
                                    \<and> \<not> flt (Last_Return a) (Last_Return c))) ?L"
    proof (rule sorted_wrt_mono_rel[rotated])
      fix x y assume "x \<in> set ?L" "y \<in> set ?L"
        and "\<not> tuple_lt (rank_key x) (rank_key y)"
      then show "Trend_Score y < Trend_Score x
                 \<or> (Trend_Score x = Trend_Score y \<and> \<not> flt (Last_Return x)
                     (Last_Return y))"
        using c sL tuple_ge_iff[of "Last_Return x" "Last_Return y" "Trend_Score x" "Trend_Score
            y"]
        by (simp add: rank_key_def)
    qed
    then show ?thesis by (simp only: L)
  qed
  show "\<exists>b rest. ?L = b # rest \<and> suggest_best_trade analyses = Inr (Best b)
          \<and> mset (b # rest) = mset ?cs
          \<and> ((\<forall>a\<in>set analyses. Trade_Signal a \<longrightarrow> Last_Return a
              \<noteq> NaN) \<longrightarrow>
               sorted_wrt (\<lambda>a c. Trend_Score c < Trend_Score a
                                 \<or> (Trend_Score a = Trend_Score c
                                    \<and> \<not> flt (Last_Return a) (Last_Return c)))
                 (b # rest))"
    using L r m o by (intro exI[of _ b] exI[of _ rest]) simp
qed

theorem ranker_filter_sort_first_witness:
  "suggest_best_trade
     [\<lparr>Ticker = ''A'', Last_Close = Fin 1, Last_Return = Fin 2, SMA_5_Day = Fin 1,
         Trend_Score = 3, Trade_Signal = True, Reason = ''''\<rparr>,
      \<lparr>Ticker = ''B'', Last_Close = Fin 1, Last_Return = Fin 1, SMA_5_Day = Fin 1,
          Trend_Score = 4, Trade_Signal = True, Reason = ''''\<rparr>,
      \<lparr>Ticker = ''C'', Last_Close = Fin 1, Last_Return = Fin 1, SMA_5_Day = Fin 1,
          Trend_Score = 4, Trade_Signal = False, Reason = ''''\<rparr>]
   = Inr (Best \<lparr>Ticker = ''B'', Last_Close = Fin 1, Last_Return = Fin 1,
       SMA_5_Day = Fin 1, Trend_Score = 4, Trade_Signal = True, Reason = ''''\<rparr>)
   \<and> sorted_py rank_key tuple_lt True (filter Trade_Signal
     [\<lparr>Ticker = ''A'', Last_Close = Fin 1, Last_Return = Fin 2, SMA_5_Day = Fin 1,
         Trend_Score = 3, Trade_Signal = True, Reason = ''''\<rparr>,
      \<lparr>Ticker = ''B'', Last_Close = Fin 1, Last_Return = Fin 1, SMA_5_Day = Fin 1,
          Trend_Score = 4, Trade_Signal = True, Reason = ''''\<rparr>,
      \<lparr>Ticker = ''C'', Last_Close = Fin 1, Last_Return = Fin 1, SMA_5_Day = Fin 1,
          Trend_Score = 4, Trade_Signal = False, Reason = ''''\<rparr>])
   = [\<lparr>Ticker = ''B'', Last_Close = Fin 1, Last_Return = Fin 1, SMA_5_Day = Fin 1,
       Trend_Score = 4, Trade_Signal = True, Reason = ''''\<rparr>,
      \<lparr>Ticker = ''A'', Last_Close = Fin 1, Last_Return = Fin 2, SMA_5_Day = Fin 1,
          Trend_Score = 3, Trade_Signal = True, Reason = ''''\<rparr>]
   \<and> suggest_best_trade
     [\<lparr>Ticker = ''C'', Last_Close = Fin 1, Last_Return = Fin 1, SMA_5_Day = Fin 1,
         Trend_Score = 4, Trade_Signal = False, Reason = ''''\<rparr>]
   = Inr NoCandidate"
proof -
  let ?L = "[\<lparr>Ticker = ''A'', Last_Close = Fin 1, Last_Return = Fin 2,
      SMA_5_Day = Fin 1, Trend_Score = 3, Trade_Signal = True, Reason = ''''\<rparr>,
      \<lparr>Ticker = ''B'', Last_Close = Fin 1, Last_Return = Fin 1, SMA_5_Day = Fin 1,
          Trend_Score = 4, Trade_Signal = True, Reason = ''''\<rparr>,
      \<lparr>Ticker = ''C'', Last_Close = Fin 1, Last_Return = Fin 1, SMA_5_Day = Fin 1,
          Trend_Score = 4, Trade_Signal = False, Reason = ''''\<rparr>]"
  let ?N = "[\<lparr>Ticker = ''C'', Last_Close = Fin 1, Last_Return = Fin 1,
      SMA_5_Day = Fin 1, Trend_Score = 4, Trade_Signal = False, Reason = ''''\<rparr>]"
  show ?thesis
    using ranker_filter_sort_first[of ?L] ranker_filter_sort_first[of ?N]
    by (simp add: suggest_best_trade_def sorted_py_def stable_sort_def rank_key_def feq_def
        Let_def)
qed

subsection \<open>The first of equal candidates wins\<close>



end
